theory Spec2Isabelle
  imports Complex_Main "HOL-Library.Sublist"
begin

section \<open>Python values, exceptions and truthiness\<close>

text \<open>
  A call either returns a value or raises. An exception is represented by the text that
  \<^verbatim>\<open>str(e)\<close> yields for it, which is all that \<^verbatim>\<open>app.py\<close> ever keeps of one.
  Only instances of \<^verbatim>\<open>Exception\<close> are modelled: these are what both
  \<^verbatim>\<open>except Exception as e\<close> and the bare \<^verbatim>\<open>except:\<close> of the batch loop catch.
\<close>

datatype 'a outcome = Returns 'a | Raises string

fun obind :: "'a outcome \<Rightarrow> ('a \<Rightarrow> 'b outcome) \<Rightarrow> 'b outcome" where
  "obind (Returns x) f = f x"
| "obind (Raises e) f = Raises e"

text \<open>
  \<^verbatim>\<open>if error:\<close> tests the truth value of a variable holding \<^verbatim>\<open>None\<close> or a
  \<^verbatim>\<open>str\<close>: \<^verbatim>\<open>None\<close> and the empty string are both false.
\<close>

fun truthy :: "string option \<Rightarrow> bool" where
  "truthy None = False"
| "truthy (Some s) = (s \<noteq> [])"

text \<open>Python's \<^verbatim>\<open>sub in s\<close> on strings: \<open>sub\<close> occurs in \<open>s\<close> as a contiguous run.\<close>

fun contains :: "string \<Rightarrow> string \<Rightarrow> bool" where
  "contains sub [] = (sub = [])"
| "contains sub (c # cs) = (prefix sub (c # cs) \<or> contains sub cs)"

text \<open>
  What \<^verbatim>\<open>json.load\<close> returns. \<open>JNull\<close> is Python's \<^verbatim>\<open>None\<close>; a dict is kept
  as the list of its items in insertion order. Floats are idealised as reals, a literal
  denoting itself.
\<close>

datatype json =
    JNull
  | JBool bool
  | JNum real
  | JStr string
  | JArr "json list"
  | JObj "(string \<times> json) list"

section \<open>Images and tensors (PIL, numpy, Keras)\<close>

text \<open>
  Pixel data is kept symbolically: the decoded content of an upload, and the library
  operations applied to it. \<^verbatim>\<open>Image.resize(size, filter)\<close> is called without a
  \<^verbatim>\<open>box\<close>, so it resamples the whole source image onto \<open>size\<close>.
\<close>

datatype pixels =
    Decoded nat
  | Convert string pixels
  | Resize "nat \<times> nat" string pixels

text \<open>
  A PIL image: its mode, its size as (width, height), its pixel data, and \<open>fault\<close>, the
  message of the exception that PIL raises when it has to touch the pixel data
  (truncated file, unsupported conversion, out of memory); \<open>None\<close> for a valid image.
  \<^verbatim>\<open>Image.open\<close> is lazy, so such an image can be opened and fail later.
\<close>

record image =
  mode :: string
  size_img :: "nat \<times> nat"
  pixels :: pixels
  fault :: "string option"

record tensor =
  shape :: "nat list"
  dtype :: string
  array_data :: pixels

definition convert :: "image \<Rightarrow> string \<Rightarrow> image outcome" where
  "convert im m =
     (case fault im of
        Some e \<Rightarrow> Raises e
      | None \<Rightarrow> Returns (im\<lparr>mode := m, pixels := Convert m (pixels im)\<rparr>))"

definition resize :: "image \<Rightarrow> nat \<times> nat \<Rightarrow> string \<Rightarrow> image outcome" where
  "resize im sz flt =
     (case fault im of
        Some e \<Rightarrow> Raises e
      | None \<Rightarrow> Returns (im\<lparr>size_img := sz, pixels := Resize sz flt (pixels im)\<rparr>))"

text \<open>The number of bands of a PIL mode (\<^verbatim>\<open>Image.getbands\<close>).\<close>

definition mode_bands :: "string \<Rightarrow> nat" where
  "mode_bands m =
     (if m \<in> {''RGBA'', ''CMYK'', ''RGBX'', ''RGBa''} then 4
      else if m \<in> {''RGB'', ''YCbCr'', ''LAB'', ''HSV''} then 3
      else if m \<in> {''LA'', ''PA'', ''La''} then 2
      else 1)"

text \<open>
  \<^verbatim>\<open>np.array(image, dtype=...)\<close>: rows first, so the shape is (height, width) for a
  single band and (height, width, bands) otherwise.
\<close>

definition np_array :: "image \<Rightarrow> string \<Rightarrow> tensor outcome" where
  "np_array im dt =
     (case fault im of
        Some e \<Rightarrow> Raises e
      | None \<Rightarrow>
          Returns \<lparr>shape = [snd (size_img im), fst (size_img im)] @
                             (if mode_bands (mode im) = 1 then [] else [mode_bands (mode im)]),
                   dtype = dt, array_data = pixels im\<rparr>)"

text \<open>\<^verbatim>\<open>np.expand_dims(a, axis)\<close> for a non-negative axis; an axis past the end raises.\<close>

definition expand_dims :: "tensor \<Rightarrow> nat \<Rightarrow> tensor outcome" where
  "expand_dims a axis =
     (if axis \<le> length (shape a)
      then Returns (a\<lparr>shape := take axis (shape a) @ [1] @ drop axis (shape a)\<rparr>)
      else Raises ''axis is out of bounds'')"

text \<open>
  \<^verbatim>\<open>tensorflow.keras.applications.efficientnet.preprocess_input\<close> returns its input
  unchanged: EfficientNet rescales inside the network.
\<close>

definition preprocess_input :: "tensor \<Rightarrow> tensor" where
  "preprocess_input x = x"

text \<open>
  A loaded Keras model, as far as \<^verbatim>\<open>predict_image\<close> uses it: \<open>forward m t\<close> is
  \<^verbatim>\<open>float(model.predict(t, verbose=0)[0][0])\<close>, which returns a number or raises;
  \<open>reject_none m\<close> is the message of the \<^verbatim>\<open>ValueError\<close> that
  \<^verbatim>\<open>model.predict\<close> raises when it is handed \<^verbatim>\<open>None\<close> instead of an array.
\<close>

record model =
  forward :: "tensor \<Rightarrow> real outcome"
  reject_none :: string

definition model_predict :: "model \<Rightarrow> tensor option \<Rightarrow> real outcome" where
  "model_predict m x =
     (case x of None \<Rightarrow> Raises (reject_none m) | Some t \<Rightarrow> forward m t)"

section \<open>\<^verbatim>\<open>preprocess_image\<close> and \<^verbatim>\<open>predict_image\<close>\<close>

definition preprocess_image :: "image \<Rightarrow> nat \<times> nat \<Rightarrow> tensor option \<times> string option" where
  "preprocess_image img target_size =
     (case obind (if mode img \<noteq> ''RGB'' then convert img ''RGB'' else Returns img)
             (\<lambda>img. obind (resize img target_size ''LANCZOS'')
             (\<lambda>img. obind (np_array img ''float32'')
             (\<lambda>img_array. obind (expand_dims img_array 0)
             (\<lambda>img_array. Returns (preprocess_input img_array))))) of
        Returns img_array \<Rightarrow> (Some img_array, None)
      | Raises e \<Rightarrow> (None, Some e))"

text \<open>
  The external calls that \<^verbatim>\<open>predict_image\<close> makes are recorded beside its result,
  so that "nothing was attempted" can be stated. The global \<^verbatim>\<open>model\<close> is a
  parameter; \<open>None\<close> is the handle that failed to load.
\<close>

datatype call = CallPreprocess | CallModelPredict

type_synonym prediction = "string option \<times> real option \<times> string option"

definition predict_image :: "model option \<Rightarrow> image \<Rightarrow> prediction \<times> call list" where
  "predict_image model img =
     (case model of
        None \<Rightarrow> ((None, None, Some ''Model not loaded''), [])
      | Some m \<Rightarrow>
          (case preprocess_image img (224, 224) of
             (processed_img, error) \<Rightarrow>
               if truthy error then ((None, None, error), [CallPreprocess])
               else
                 (case model_predict m processed_img of
                    Raises e \<Rightarrow> ((None, None, Some e), [CallPreprocess, CallModelPredict])
                  | Returns probability \<Rightarrow>
                      if probability > 0.5
                      then ((Some ''No_Diabetic_Retinopathy'', Some probability, None),
                            [CallPreprocess, CallModelPredict])
                      else ((Some ''Diabetic_Retinopathy'', Some (1 - probability), None),
                            [CallPreprocess, CallModelPredict]))))"

section \<open>The batch loop and its summary\<close>

text \<open>
  An uploaded file: its name and what \<^verbatim>\<open>Image.open(file)\<close> does with its bytes.
\<close>

record upload =
  name :: string
  opened :: "image outcome"

text \<open>
  One row of \<^verbatim>\<open>results\<close>. \<^verbatim>\<open>'Prediction'\<close> holds \<^verbatim>\<open>predicted_label\<close>, a
  variable that may be \<^verbatim>\<open>None\<close>, hence the option.
\<close>

record batch_record =
  Filename :: string
  Prediction :: "string option"
  Confidence :: string
  Status :: string

text \<open>
  \<^verbatim>\<open>confidence*100\<close>: a \<^verbatim>\<open>TypeError\<close> when \<^verbatim>\<open>confidence\<close> is \<^verbatim>\<open>None\<close>
  (the message is abridged; the batch loop discards it).
\<close>

definition times100 :: "real option \<Rightarrow> real outcome" where
  "times100 confidence =
     (case confidence of
        None \<Rightarrow> Raises ''unsupported operand type(s) for *: NoneType and int''
      | Some c \<Rightarrow> Returns (c * 100))"

text \<open>
  The body of the batch loop for one file: the \<^verbatim>\<open>try\<close> block, and the bare
  \<^verbatim>\<open>except:\<close> that appends the "Failed" row. \<open>fmt\<close> is the float formatting
  \<^verbatim>\<open>{:.2f}\<close>, a parameter. A row is appended by the \<^verbatim>\<open>try\<close> block only if
  building it did not raise, so each file contributes exactly the row returned here.
\<close>

definition process_file :: "(real \<Rightarrow> string) \<Rightarrow> model option \<Rightarrow> upload \<Rightarrow> batch_record" where
  "process_file fmt model file =
     (case obind (opened file)
             (\<lambda>img. case fst (predict_image model img) of
                (predicted_label, confidence, error) \<Rightarrow>
                  if truthy error
                  then Returns \<lparr>Filename = name file, Prediction = Some ''Error'',
                                Confidence = ''N/A'', Status = ''Failed''\<rparr>
                  else
                    (let is_positive = (predicted_label = Some ''Diabetic_Retinopathy'')
                     in obind (times100 confidence)
                          (\<lambda>c. Returns \<lparr>Filename = name file, Prediction = predicted_label,
                                         Confidence = fmt c @ ''%'',
                                         Status = (if is_positive then ''DR Detected''
                                                   else ''No DR'')\<rparr>))) of
        Returns r \<Rightarrow> r
      | Raises e \<Rightarrow> \<lparr>Filename = name file, Prediction = Some ''Error'',
                      Confidence = ''N/A'', Status = ''Failed''\<rparr>)"

text \<open>The \<^verbatim>\<open>for\<close> loop over \<^verbatim>\<open>batch_files\<close>, appending to \<^verbatim>\<open>results\<close>.\<close>

fun batch_loop ::
  "(real \<Rightarrow> string) \<Rightarrow> model option \<Rightarrow> upload list \<Rightarrow> batch_record list \<Rightarrow> batch_record list"
where
  "batch_loop fmt model [] results = results"
| "batch_loop fmt model (file # files) results =
     batch_loop fmt model files (results @ [process_file fmt model file])"

definition process_batch ::
  "(real \<Rightarrow> string) \<Rightarrow> model option \<Rightarrow> upload list \<Rightarrow> batch_record list" where
  "process_batch fmt model batch_files = batch_loop fmt model batch_files []"

text \<open>\<^verbatim>\<open>sum(1 for r in results if s in r['Status'])\<close>\<close>

definition count_status :: "string \<Rightarrow> batch_record list \<Rightarrow> nat" where
  "count_status s results =
     sum_list (map (\<lambda>r. 1) (filter (\<lambda>r. contains s (Status r)) results))"

record batch_summary =
  total_count :: nat
  positive_count :: nat
  negative_count :: nat
  failed_count :: nat

definition summary :: "batch_record list \<Rightarrow> batch_summary" where
  "summary results =
     \<lparr>total_count = length results,
      positive_count = count_status ''DR Detected'' results,
      negative_count = count_status ''No DR'' results,
      failed_count = count_status ''Failed'' results\<rparr>"

text \<open>
  What the batch loop learns about one file: \<open>None\<close> when opening it raises, otherwise
  the triple that \<^verbatim>\<open>predict_image\<close> returns for the opened image.
\<close>

definition prediction_of :: "model option \<Rightarrow> upload \<Rightarrow> prediction option" where
  "prediction_of model file =
     (case opened file of
        Raises e \<Rightarrow> None
      | Returns img \<Rightarrow> Some (fst (predict_image model img)))"

text \<open>
  A file fails when opening it raises, when preprocessing the opened image raises, or
  when inference raises.
\<close>

definition item_fails :: "model \<Rightarrow> upload \<Rightarrow> bool" where
  "item_fails m file =
     (case opened file of
        Raises e \<Rightarrow> True
      | Returns img \<Rightarrow>
          (case preprocess_image img (224, 224) of
             (t, Some e) \<Rightarrow> True
           | (t, None) \<Rightarrow>
               (case model_predict m t of Raises e \<Rightarrow> True | Returns p \<Rightarrow> False)))"

section \<open>\<^verbatim>\<open>load_trained_model\<close>\<close>

text \<open>
  The filesystem as \<^verbatim>\<open>load_trained_model\<close> reads it: \<^verbatim>\<open>os.path.exists\<close>,
  \<^verbatim>\<open>load_model(path, compile=False)\<close>, and opening a file and handing it to
  \<^verbatim>\<open>json.load\<close>.
\<close>

record filesystem =
  path_exists :: "string \<Rightarrow> bool"
  load_model :: "string \<Rightarrow> model outcome"
  json_load :: "string \<Rightarrow> json outcome"

definition possible_paths :: "string list" where
  "possible_paths =
     [''models/best_model.h5'', ''models/dr_model_final.h5'',
      ''best_model.h5'', ''dr_model_final.h5'']"

definition metadata_paths :: "string list" where
  "metadata_paths = [''models/metadata.json'', ''metadata.json'']"

definition default_metadata :: json where
  "default_metadata =
     JObj [(''classes'', JArr [JStr ''DR'', JStr ''No_DR'']),
           (''test_accuracy'', JNum 0.96),
           (''test_auc'', JNum 0.99),
           (''architecture'', JStr ''EfficientNetB3'')]"

text \<open>
  Each \<^verbatim>\<open>for\<close> loop with its \<^verbatim>\<open>break\<close> finds the first existing path. The returned
  triple is (model, metadata, error), with \<open>JNull\<close> for a \<^verbatim>\<open>None\<close> metadata.
\<close>

definition load_trained_model :: "filesystem \<Rightarrow> model option \<times> json \<times> string option" where
  "load_trained_model fs =
     (case (case find (path_exists fs) possible_paths of
              None \<Rightarrow> Returns (None, JNull, Some ''Model file not found'')
            | Some model_path \<Rightarrow>
                obind (load_model fs model_path)
                  (\<lambda>model. obind (case find (path_exists fs) metadata_paths of
                                    None \<Rightarrow> Returns JNull
                                  | Some meta_path \<Rightarrow> json_load fs meta_path)
                  (\<lambda>metadata. Returns (Some model,
                                        (if metadata = JNull then default_metadata
                                         else metadata),
                                        None)))) of
        Returns r \<Rightarrow> r
      | Raises e \<Rightarrow> (None, JNull, Some e))"

section \<open>Download names\<close>

text \<open>\<^verbatim>\<open>s.split(sep)\<close> for a one-character separator, and \<^verbatim>\<open>xs[0]\<close>.\<close>

fun split_char :: "char \<Rightarrow> string \<Rightarrow> string list" where
  "split_char sep [] = [[]]"
| "split_char sep (c # cs) =
     (if c = sep then [] # split_char sep cs
      else (case split_char sep cs of
              [] \<Rightarrow> [[c]]
            | w # ws \<Rightarrow> (c # w) # ws))"

definition index0 :: "'a list \<Rightarrow> 'a outcome" where
  "index0 xs = (case xs of [] \<Rightarrow> Raises ''list index out of range'' | x # _ \<Rightarrow> Returns x)"

text \<open>\<^verbatim>\<open>f"DR_Report_{uploaded_file.name.split('.')[0]}.txt"\<close>\<close>

definition report_file_name :: "string \<Rightarrow> string outcome" where
  "report_file_name nm =
     obind (index0 (split_char CHR ''.'' nm))
       (\<lambda>base. Returns (''DR_Report_'' @ base @ ''.txt''))"

definition batch_file_name :: string where
  "batch_file_name = ''batch_dr_analysis.csv''"

text \<open>
  The specification's wording, for comparison: a file name with its extension removed,
  the extension being what follows the last dot (together with that dot).
\<close>

definition name_without_extension :: "string \<Rightarrow> string" where
  "name_without_extension nm =
     (if CHR ''.'' \<in> set nm
      then rev (tl (dropWhile (\<lambda>c. c \<noteq> CHR ''.'') (rev nm)))
      else nm)"

section \<open>Example inputs\<close>

text \<open>A model that answers exactly one half for every tensor.\<close>

definition half_model :: model where
  "half_model =
     \<lparr>forward = (\<lambda>t. Returns (1 / 2)), reject_none = ''Unrecognized data type: x=None''\<rparr>"

text \<open>A valid greyscale photograph of 1024 by 768 pixels.\<close>

definition grey_image :: image where
  "grey_image = \<lparr>mode = ''L'', size_img = (1024, 768), pixels = Decoded 0, fault = None\<rparr>"

text \<open>
  A very large image for which PIL runs out of memory: \<^verbatim>\<open>MemoryError()\<close> carries
  no message, so \<^verbatim>\<open>str(e)\<close> is the empty string.
\<close>

definition huge_image :: image where
  "huge_image =
     \<lparr>mode = ''L'', size_img = (12000, 12000), pixels = Decoded 1, fault = Some []\<rparr>"

text \<open>An upload whose bytes are not an image.\<close>

definition broken_upload :: upload where
  "broken_upload =
     \<lparr>name = ''notes.png'', opened = Raises ''cannot identify image file''\<rparr>"

text \<open>An upload that opens, lazily, as the image too large to process.\<close>

definition huge_upload :: upload where
  "huge_upload = \<lparr>name = ''mosaic.png'', opened = Returns huge_image\<rparr>"

text \<open>
  A model that answers 0.9 for the first sample image, 0.2 for the second, and raises
  for any other; the sample uploads are valid RGB images told apart by their content.
\<close>

definition graded_model :: model where
  "graded_model =
     \<lparr>forward = (\<lambda>t. case array_data t of
                       Resize sz flt (Decoded n) \<Rightarrow>
                         if n = 0 then Returns 0.9
                         else if n = 1 then Returns 0.2
                         else Raises ''Graph execution error''
                     | _ \<Rightarrow> Raises ''Graph execution error''),
      reject_none = ''Unrecognized data type: x=None''\<rparr>"

definition sample_upload :: "nat \<Rightarrow> upload" where
  "sample_upload n =
     \<lparr>name = ''eye.jpg'',
      opened = Returns \<lparr>mode = ''RGB'', size_img = (640, 480), pixels = Decoded n,
                         fault = None\<rparr>\<rparr>"

definition sample_batch :: "upload list" where
  "sample_batch = [sample_upload 0, sample_upload 1, sample_upload 2]"

text \<open>A directory holding a model file and no metadata file.\<close>

definition model_only_fs :: filesystem where
  "model_only_fs =
     \<lparr>path_exists = (\<lambda>p. p = ''models/best_model.h5''),
      load_model = (\<lambda>p. Returns half_model),
      json_load = (\<lambda>p. Raises ''No such file or directory'')\<rparr>"

text \<open>A directory holding a metadata file and no model file.\<close>

definition metadata_only_fs :: filesystem where
  "metadata_only_fs =
     \<lparr>path_exists = (\<lambda>p. p = ''metadata.json''),
      load_model = (\<lambda>p. Raises ''No file or directory found''),
      json_load = (\<lambda>p. Returns (JObj [(''architecture'', JStr ''EfficientNetB0'')]))\<rparr>"

section \<open>Preprocessing\<close>

text \<open>
  \<^verbatim>\<open>preprocess_image\<close> always returns: either a tensor and no error, or no tensor
  and the message of the exception that its \<^verbatim>\<open>try\<close> block caught.
\<close>

lemma preprocess_image_cases:
  "(\<exists>t. preprocess_image img sz = (Some t, None)) \<or>
   (\<exists>e. preprocess_image img sz = (None, Some e))"
  by (simp add: preprocess_image_def split: outcome.split)

lemma preprocess_image_valid:
  assumes "fault img = None"
  shows "preprocess_image img sz =
    (Some \<lparr>shape = [1, snd sz, fst sz, 3], dtype = ''float32'',
           array_data = Resize sz ''LANCZOS''
              (if mode img = ''RGB'' then pixels img else Convert ''RGB'' (pixels img))\<rparr>,
     None)"
  using assms
  by (simp add: preprocess_image_def convert_def resize_def np_array_def expand_dims_def
      preprocess_input_def mode_bands_def)

lemma preprocess_image_fault:
  assumes "fault img = Some e"
  shows "preprocess_image img sz = (None, Some e)"
  using assms
  by (simp add: preprocess_image_def convert_def resize_def)

text \<open>
  C6. For every valid image (one whose pixel data PIL can process), whatever its size and
  mode, \<^verbatim>\<open>preprocess_image\<close> with the default target size returns a tensor and no
  error; the tensor is \<^verbatim>\<open>float32\<close> of shape (1, 224, 224, 3). Its data is the whole
  image resampled onto 224 by 224 by one LANCZOS \<^verbatim>\<open>resize\<close> (no crop, no padding),
  after a conversion to RGB exactly when the mode was not RGB already.
\<close>

theorem preprocess_image_shape:
  assumes "fault img = None"
  shows "\<exists>t. preprocess_image img (224, 224) = (Some t, None)
           \<and> shape t = [1, 224, 224, 3] \<and> dtype t = ''float32''
           \<and> array_data t = Resize (224, 224) ''LANCZOS''
                (if mode img = ''RGB'' then pixels img else Convert ''RGB'' (pixels img))"
  using preprocess_image_valid [OF assms, of "(224, 224)"] by simp

theorem preprocess_image_shape_witness:
  "fault grey_image = None
   \<and> (\<exists>t. preprocess_image grey_image (224, 224) = (Some t, None)
          \<and> shape t = [1, 224, 224, 3] \<and> dtype t = ''float32''
          \<and> array_data t = Resize (224, 224) ''LANCZOS'' (Convert ''RGB'' (Decoded 0)))"
proof -
  have valid: "fault grey_image = None"
    by (simp add: grey_image_def)
  from preprocess_image_shape [OF valid] valid show ?thesis
    by (simp add: grey_image_def)
qed

section \<open>Prediction\<close>

text \<open>
  C7. Without a model handle, \<^verbatim>\<open>predict_image\<close> returns no label, no confidence and
  the error "Model not loaded", for every image, and has made no call: neither
  \<^verbatim>\<open>preprocess_image\<close> nor \<^verbatim>\<open>model.predict\<close>.
\<close>

theorem predict_image_no_model:
  "predict_image None img = ((None, None, Some ''Model not loaded''), [])"
  by (simp add: predict_image_def)

text \<open>\<^verbatim>\<open>predict_image\<close> with a model, by the outcome of preprocessing.\<close>

lemma predict_image_preprocessed:
  assumes "preprocess_image img (224, 224) = (Some t, None)"
  shows "predict_image (Some m) img =
     (case forward m t of
        Raises e \<Rightarrow> ((None, None, Some e), [CallPreprocess, CallModelPredict])
      | Returns p \<Rightarrow>
          ((if p > 0.5 then (Some ''No_Diabetic_Retinopathy'', Some p, None)
            else (Some ''Diabetic_Retinopathy'', Some (1 - p), None)),
           [CallPreprocess, CallModelPredict]))"
  using assms by (simp add: predict_image_def model_predict_def split: outcome.split)

lemma predict_image_preprocess_failed:
  assumes "preprocess_image img (224, 224) = (None, Some e)"
  shows "predict_image (Some m) img =
     (if e \<noteq> [] then ((None, None, Some e), [CallPreprocess])
      else ((None, None, Some (reject_none m)), [CallPreprocess, CallModelPredict]))"
  using assms by (simp add: predict_image_def model_predict_def)

text \<open>A preprocessing error with a non-empty message reaches the caller unchanged.\<close>

lemma predict_image_propagates_message:
  assumes "preprocess_image img (224, 224) = (None, Some e)" and "e \<noteq> []"
  shows "fst (predict_image (Some m) img) = (None, None, Some e)"
  using assms by (simp add: predict_image_preprocess_failed)

text \<open>
  The triples that \<^verbatim>\<open>predict_image\<close> can return: an error alone, or one of the two
  labels with a confidence.
\<close>

lemma predict_image_result:
  "(\<exists>e. fst (predict_image model img) = (None, None, Some e))
   \<or> (\<exists>p. fst (predict_image model img) = (Some ''No_Diabetic_Retinopathy'', Some p, None))
   \<or> (\<exists>p. fst (predict_image model img) = (Some ''Diabetic_Retinopathy'', Some p, None))"
proof (cases model)
  case None
  then show ?thesis by (simp add: predict_image_def)
next
  case (Some m)
  consider t where "preprocess_image img (224, 224) = (Some t, None)"
    | e where "preprocess_image img (224, 224) = (None, Some e)"
    using preprocess_image_cases [of img "(224, 224)"] by blast
  then show ?thesis
  proof cases
    case 1
    then show ?thesis unfolding Some
      by (cases "forward m t") (simp_all add: predict_image_preprocessed)
  next
    case 2
    then show ?thesis unfolding Some
      by (simp add: predict_image_preprocess_failed)
  qed
qed

lemma predict_image_scalar:
  assumes "model_predict m (fst (preprocess_image img (224, 224))) = Returns p"
  shows "predict_image (Some m) img =
     ((if p > 0.5 then (Some ''No_Diabetic_Retinopathy'', Some p, None)
       else (Some ''Diabetic_Retinopathy'', Some (1 - p), None)),
      [CallPreprocess, CallModelPredict])"
proof -
  from preprocess_image_cases [of img "(224, 224)"]
  obtain t where t: "preprocess_image img (224, 224) = (Some t, None)"
    using assms by (auto simp: model_predict_def)
  with assms show ?thesis
    by (simp add: predict_image_preprocessed model_predict_def)
qed

text \<open>
  C1. Whenever the model answers the preprocessed image with a scalar \<open>p\<close> in [0, 1],
  \<^verbatim>\<open>predict_image\<close> returns the label "No_Diabetic_Retinopathy" with confidence \<open>p\<close>
  if \<open>p > 0.5\<close>, and the label "Diabetic_Retinopathy" with confidence \<open>1 - p\<close> otherwise
  (so also at \<open>p = 0.5\<close>), with no error; the confidence is the larger of \<open>p\<close> and
  \<open>1 - p\<close> and lies in [0, 1].
\<close>

theorem predict_image_decision:
  assumes "model_predict m (fst (preprocess_image img (224, 224))) = Returns p"
      and "0 \<le> p" and "p \<le> 1"
  shows "fst (predict_image (Some m) img) =
           (if p > 0.5 then (Some ''No_Diabetic_Retinopathy'', Some p, None)
            else (Some ''Diabetic_Retinopathy'', Some (1 - p), None))
         \<and> fst (snd (fst (predict_image (Some m) img))) = Some (max p (1 - p))
         \<and> 0 \<le> max p (1 - p) \<and> max p (1 - p) \<le> 1"
  using assms(2,3) by (simp add: predict_image_scalar [OF assms(1)] max_def)

theorem predict_image_decision_witness:
  "model_predict half_model (fst (preprocess_image grey_image (224, 224))) = Returns (1 / 2)
   \<and> fst (predict_image (Some half_model) grey_image) =
       (Some ''Diabetic_Retinopathy'', Some (1 / 2), None)"
proof -
  have "fault grey_image = None"
    by (simp add: grey_image_def)
  then have out: "model_predict half_model (fst (preprocess_image grey_image (224, 224)))
                    = Returns (1 / 2)"
    by (simp add: preprocess_image_valid model_predict_def half_model_def)
  from predict_image_decision [OF out] out show ?thesis
    by simp
qed

text \<open>
  C5, at a failing input. Preprocessing the image that exhausts memory fails with the
  empty message; \<^verbatim>\<open>if error:\<close> takes the empty string for "no error", so
  \<^verbatim>\<open>predict_image\<close> goes on to call the model with \<^verbatim>\<open>None\<close> and returns the
  message of that second failure instead of the preprocessing error.
\<close>

theorem predict_image_drops_empty_message:
  "preprocess_image huge_image (224, 224) = (None, Some [])
   \<and> predict_image (Some half_model) huge_image =
        ((None, None, Some ''Unrecognized data type: x=None''),
         [CallPreprocess, CallModelPredict])"
  by (simp add: preprocess_image_fault predict_image_preprocess_failed huge_image_def
      half_model_def)

section \<open>Batch processing\<close>

lemma batch_loop_append:
  "batch_loop fmt model files results = results @ map (process_file fmt model) files"
  by (induction files arbitrary: results) simp_all

lemma process_batch_map:
  "process_batch fmt model files = map (process_file fmt model) files"
  by (simp add: process_batch_def batch_loop_append)

text \<open>The row of one file, by what happened to it.\<close>

lemma process_file_open_raises:
  assumes "opened f = Raises e"
  shows "process_file fmt model f =
           \<lparr>Filename = name f, Prediction = Some ''Error'', Confidence = ''N/A'',
            Status = ''Failed''\<rparr>"
  using assms by (simp add: process_file_def)

lemma process_file_error:
  assumes "opened f = Returns img"
      and "fst (predict_image model img) = (None, None, Some e)"
  shows "process_file fmt model f =
           \<lparr>Filename = name f, Prediction = Some ''Error'', Confidence = ''N/A'',
            Status = ''Failed''\<rparr>"
  using assms by (simp add: process_file_def times100_def)

lemma process_file_label:
  assumes "opened f = Returns img"
      and "fst (predict_image model img) = (Some l, Some p, None)"
  shows "process_file fmt model f =
           \<lparr>Filename = name f, Prediction = Some l, Confidence = fmt (p * 100) @ ''%'',
            Status = (if l = ''Diabetic_Retinopathy'' then ''DR Detected'' else ''No DR'')\<rparr>"
  using assms by (simp add: process_file_def times100_def)

lemma process_file_Filename:
  "Filename (process_file fmt model f) = name f"
proof (cases "opened f")
  case (Raises e)
  then show ?thesis by (simp add: process_file_open_raises)
next
  case (Returns img)
  from predict_image_result [of model img] show ?thesis
    by (auto simp: process_file_error [OF Returns] process_file_label [OF Returns])
qed

lemma process_file_status:
  "Status (process_file fmt model f) =
     (case prediction_of model f of
        None \<Rightarrow> ''Failed''
      | Some (l, c, e) \<Rightarrow>
          if e \<noteq> None then ''Failed''
          else if l = Some ''Diabetic_Retinopathy'' then ''DR Detected''
          else ''No DR'')"
proof (cases "opened f")
  case (Raises e)
  then show ?thesis by (simp add: process_file_open_raises prediction_of_def)
next
  case (Returns img)
  from predict_image_result [of model img] show ?thesis
    by (auto simp: process_file_error [OF Returns] process_file_label [OF Returns]
        prediction_of_def Returns)
qed

lemma process_file_status_cases:
  "Status (process_file fmt model f) \<in> {''DR Detected'', ''No DR'', ''Failed''}"
  by (simp add: process_file_status split: option.split prod.split)

text \<open>
  C4. \<^verbatim>\<open>process_batch\<close> returns one row per file, in input order, each row computed
  from its own file alone (so no file's failure affects another row), and carrying that
  file's name. The status of a row is "DR Detected" exactly when the file opened and
  \<^verbatim>\<open>predict_image\<close> returned the label "Diabetic_Retinopathy" with no error, "No DR"
  exactly when it returned "No_Diabetic_Retinopathy" with no error, and "Failed" exactly
  in every other case.
\<close>

theorem process_batch_rows:
  "process_batch fmt model files = map (process_file fmt model) files
   \<and> map Filename (process_batch fmt model files) = map name files
   \<and> (Status (process_file fmt model f) = ''DR Detected'') =
       (\<exists>c. prediction_of model f = Some (Some ''Diabetic_Retinopathy'', c, None))
   \<and> (Status (process_file fmt model f) = ''No DR'') =
       (\<exists>c. prediction_of model f = Some (Some ''No_Diabetic_Retinopathy'', c, None))
   \<and> (Status (process_file fmt model f) = ''Failed'') =
       (\<not> (\<exists>c. prediction_of model f = Some (Some ''Diabetic_Retinopathy'', c, None))
        \<and> \<not> (\<exists>c. prediction_of model f = Some (Some ''No_Diabetic_Retinopathy'', c, None)))"
proof -
  have rows: "process_batch fmt model files = map (process_file fmt model) files"
    by (rule process_batch_map)
  have names: "map Filename (process_batch fmt model files) = map name files"
    by (simp add: process_batch_map process_file_Filename)
  have status: "(Status (process_file fmt model f) = ''DR Detected'') =
       (\<exists>c. prediction_of model f = Some (Some ''Diabetic_Retinopathy'', c, None))
   \<and> (Status (process_file fmt model f) = ''No DR'') =
       (\<exists>c. prediction_of model f = Some (Some ''No_Diabetic_Retinopathy'', c, None))
   \<and> (Status (process_file fmt model f) = ''Failed'') =
       (\<not> (\<exists>c. prediction_of model f = Some (Some ''Diabetic_Retinopathy'', c, None))
        \<and> \<not> (\<exists>c. prediction_of model f = Some (Some ''No_Diabetic_Retinopathy'', c, None)))"
  proof (cases "opened f")
    case (Raises e)
    then show ?thesis by (simp add: process_file_status prediction_of_def)
  next
    case (Returns img)
    from predict_image_result [of model img] show ?thesis
      by (auto simp: process_file_status prediction_of_def Returns)
  qed
  from rows names status show ?thesis by blast
qed

theorem process_batch_rows_witness:
  "map Status (process_batch (\<lambda>c. []) (Some graded_model) sample_batch)
     = [''No DR'', ''DR Detected'', ''Failed'']
   \<and> map Prediction (process_batch (\<lambda>c. []) (Some graded_model) sample_batch)
     = [Some ''No_Diabetic_Retinopathy'', Some ''Diabetic_Retinopathy'', Some ''Error'']"
proof -
  have pre: "preprocess_image (\<lparr>mode = ''RGB'', size_img = (640, 480), pixels = Decoded n,
                                  fault = None\<rparr>) (224, 224)
             = (Some \<lparr>shape = [1, 224, 224, 3], dtype = ''float32'',
                      array_data = Resize (224, 224) ''LANCZOS'' (Decoded n)\<rparr>, None)" for n
    by (simp add: preprocess_image_valid)
  have rows: "process_batch (\<lambda>c. []) (Some graded_model) sample_batch
                = map (process_file (\<lambda>c. []) (Some graded_model)) sample_batch"
    using process_batch_rows [of "\<lambda>c. []" "Some graded_model" sample_batch] by blast
  show ?thesis
    unfolding rows
    by (simp add: sample_batch_def sample_upload_def process_file_def times100_def
        predict_image_preprocessed [OF pre] graded_model_def)
qed

text \<open>
  C10. A file that fails, because opening it raises or because \<^verbatim>\<open>predict_image\<close>
  returns an error (empty or not), gets the row with Prediction "Error", Confidence
  "N/A" and Status "Failed": a row made of the file's name and constants, in which the
  error message has no part. The CSV export is computed from these rows alone.
\<close>

theorem failed_file_row:
  assumes "prediction_of model f = None
           \<or> (\<exists>l c e. prediction_of model f = Some (l, c, Some e))"
  shows "process_file fmt model f =
           \<lparr>Filename = name f, Prediction = Some ''Error'', Confidence = ''N/A'',
            Status = ''Failed''\<rparr>"
proof (cases "opened f")
  case (Raises e)
  then show ?thesis by (rule process_file_open_raises)
next
  case (Returns img)
  with assms obtain l c e where "fst (predict_image model img) = (l, c, Some e)"
    by (auto simp: prediction_of_def)
  with predict_image_result [of model img]
  have "fst (predict_image model img) = (None, None, Some e)"
    by auto
  with Returns show ?thesis by (rule process_file_error)
qed

theorem failed_file_row_witness:
  "prediction_of (Some half_model) broken_upload = None
   \<and> process_file (\<lambda>c. []) (Some half_model) broken_upload =
       \<lparr>Filename = ''notes.png'', Prediction = Some ''Error'', Confidence = ''N/A'',
        Status = ''Failed''\<rparr>
   \<and> prediction_of (Some half_model) huge_upload =
       Some (None, None, Some ''Unrecognized data type: x=None'')
   \<and> process_file (\<lambda>c. []) (Some half_model) huge_upload =
       \<lparr>Filename = ''mosaic.png'', Prediction = Some ''Error'', Confidence = ''N/A'',
        Status = ''Failed''\<rparr>"
proof -
  have broken: "prediction_of (Some half_model) broken_upload = None"
    by (simp add: prediction_of_def broken_upload_def)
  have huge: "prediction_of (Some half_model) huge_upload =
                Some (None, None, Some ''Unrecognized data type: x=None'')"
    by (simp add: prediction_of_def huge_upload_def huge_image_def preprocess_image_fault
        predict_image_preprocess_failed half_model_def)
  have "process_file (\<lambda>c. []) (Some half_model) broken_upload =
          \<lparr>Filename = name broken_upload, Prediction = Some ''Error'', Confidence = ''N/A'',
           Status = ''Failed''\<rparr>"
    using failed_file_row [of "Some half_model" broken_upload "\<lambda>c. []"] broken by simp
  moreover have "process_file (\<lambda>c. []) (Some half_model) huge_upload =
          \<lparr>Filename = name huge_upload, Prediction = Some ''Error'', Confidence = ''N/A'',
           Status = ''Failed''\<rparr>"
    using failed_file_row [of "Some half_model" huge_upload "\<lambda>c. []"] huge by simp
  ultimately show ?thesis
    using broken huge by (simp add: broken_upload_def huge_upload_def)
qed

text \<open>With a loaded model, a row is "Failed" exactly for the files that fail.\<close>

lemma item_fails_error:
  "item_fails m f \<longleftrightarrow>
     (case opened f of
        Raises e \<Rightarrow> True
      | Returns img \<Rightarrow> (\<exists>e. fst (predict_image (Some m) img) = (None, None, Some e)))"
proof (cases "opened f")
  case (Raises e)
  then show ?thesis by (simp add: item_fails_def)
next
  case (Returns img)
  consider t where "preprocess_image img (224, 224) = (Some t, None)"
    | e where "preprocess_image img (224, 224) = (None, Some e)"
    using preprocess_image_cases [of img "(224, 224)"] by blast
  then show ?thesis
  proof cases
    case 1
    then show ?thesis
      by (cases "forward m t")
         (simp_all add: item_fails_def Returns model_predict_def predict_image_preprocessed)
  next
    case 2
    then show ?thesis
      by (simp add: item_fails_def Returns predict_image_preprocess_failed)
  qed
qed

lemma process_file_failed_iff:
  "Status (process_file fmt (Some m) f) = ''Failed'' \<longleftrightarrow> item_fails m f"
proof (cases "opened f")
  case (Raises e)
  then show ?thesis by (simp add: process_file_status prediction_of_def item_fails_error)
next
  case (Returns img)
  from predict_image_result [of "Some m" img] show ?thesis
    by (auto simp: process_file_status prediction_of_def item_fails_error Returns)
qed

lemma contains_status [simp]:
  "contains ''DR Detected'' ''DR Detected''" "\<not> contains ''DR Detected'' ''No DR''"
  "\<not> contains ''DR Detected'' ''Failed''"
  "\<not> contains ''No DR'' ''DR Detected''" "contains ''No DR'' ''No DR''"
  "\<not> contains ''No DR'' ''Failed''"
  "\<not> contains ''Failed'' ''DR Detected''" "\<not> contains ''Failed'' ''No DR''"
  "contains ''Failed'' ''Failed''"
  by simp_all

lemma count_status_filter:
  "count_status s results = length (filter (\<lambda>r. contains s (Status r)) results)"
  by (simp add: count_status_def sum_list_triv)

text \<open>
  C2. For a batch of \<open>N\<close> files processed with a loaded model, of which \<open>k\<close> fail (opening
  the file raises, preprocessing raises, or inference raises), the summary of the rows
  has \<open>failed = k\<close>, \<open>positive + negative = N - k\<close>, and
  \<open>positive + negative + failed = total = N\<close>.
\<close>

theorem batch_summary_counts:
  "failed_count (summary (process_batch fmt (Some m) files))
     = length (filter (item_fails m) files)
   \<and> positive_count (summary (process_batch fmt (Some m) files))
       + negative_count (summary (process_batch fmt (Some m) files))
       = length files - length (filter (item_fails m) files)
   \<and> positive_count (summary (process_batch fmt (Some m) files))
       + negative_count (summary (process_batch fmt (Some m) files))
       + failed_count (summary (process_batch fmt (Some m) files))
       = total_count (summary (process_batch fmt (Some m) files))
   \<and> total_count (summary (process_batch fmt (Some m) files)) = length files"
proof -
  let ?st = "\<lambda>f. Status (process_file fmt (Some m) f)"
  have cnt: "count_status s (process_batch fmt (Some m) files)
               = length (filter (\<lambda>f. contains s (?st f)) files)" for s
    by (simp add: count_status_filter process_batch_map filter_map o_def)
  have failed: "contains ''Failed'' (?st f) \<longleftrightarrow> item_fails m f" for f
    using process_file_status_cases [of fmt "Some m" f] process_file_failed_iff [of fmt m f]
    by auto
  have split3: "length (filter (\<lambda>f. contains ''DR Detected'' (?st f)) fs)
          + length (filter (\<lambda>f. contains ''No DR'' (?st f)) fs)
          + length (filter (\<lambda>f. contains ''Failed'' (?st f)) fs) = length fs" for fs
  proof (induction fs)
    case Nil
    then show ?case by simp
  next
    case (Cons f fs)
    then show ?case
      using process_file_status_cases [of fmt "Some m" f] by auto
  qed
  have len: "length (process_batch fmt (Some m) files) = length files"
    by (simp add: process_batch_map)
  show ?thesis
    using split3 [of files]
    by (simp add: summary_def cnt failed len)
qed

theorem batch_summary_counts_witness:
  "length (filter (item_fails graded_model) sample_batch) = 1
   \<and> failed_count (summary (process_batch (\<lambda>c. []) (Some graded_model) sample_batch)) = 1
   \<and> positive_count (summary (process_batch (\<lambda>c. []) (Some graded_model) sample_batch))
       + negative_count (summary (process_batch (\<lambda>c. []) (Some graded_model) sample_batch))
       = 2
   \<and> total_count (summary (process_batch (\<lambda>c. []) (Some graded_model) sample_batch)) = 3"
proof -
  have pre: "preprocess_image (\<lparr>mode = ''RGB'', size_img = (640, 480), pixels = Decoded n,
                                  fault = None\<rparr>) (224, 224)
             = (Some \<lparr>shape = [1, 224, 224, 3], dtype = ''float32'',
                      array_data = Resize (224, 224) ''LANCZOS'' (Decoded n)\<rparr>, None)" for n
    by (simp add: preprocess_image_valid)
  have k: "length (filter (item_fails graded_model) sample_batch) = 1"
    by (simp add: sample_batch_def sample_upload_def item_fails_def pre model_predict_def
        graded_model_def)
  have n: "length sample_batch = 3"
    by (simp add: sample_batch_def)
  from batch_summary_counts [of "\<lambda>c. []" graded_model sample_batch] k n
  show ?thesis by simp
qed

section \<open>Model and metadata resolution\<close>

text \<open>
  C3, as the code has it. When none of the model candidate paths exists,
  \<^verbatim>\<open>load_trained_model\<close> returns no model, the error "Model file not found", and no
  metadata: it returns before the metadata paths are looked at, whatever they hold.
\<close>

theorem load_trained_model_no_model_file:
  assumes "\<forall>p \<in> set possible_paths. \<not> path_exists fs p"
  shows "load_trained_model fs = (None, JNull, Some ''Model file not found'')"
proof -
  from assms have "find (path_exists fs) possible_paths = None"
    by (simp add: find_None_iff)
  then show ?thesis by (simp add: load_trained_model_def)
qed

theorem load_trained_model_no_model_file_witness:
  "filter (path_exists metadata_only_fs) possible_paths = []
   \<and> load_trained_model metadata_only_fs = (None, JNull, Some ''Model file not found'')"
proof -
  have none: "\<forall>p \<in> set possible_paths. \<not> path_exists metadata_only_fs p"
    by (simp add: possible_paths_def metadata_only_fs_def)
  from load_trained_model_no_model_file [OF none] none show ?thesis
    by (simp add: filter_empty_conv)
qed

text \<open>
  C3 as stated fails: with no model file and a readable \<^verbatim>\<open>metadata.json\<close>, the metadata
  returned is \<^verbatim>\<open>None\<close>, neither the parsed file nor the default record.
\<close>

theorem load_trained_model_metadata_counterexample:
  "find (path_exists metadata_only_fs) possible_paths = None
   \<and> find (path_exists metadata_only_fs) metadata_paths = Some ''metadata.json''
   \<and> json_load metadata_only_fs ''metadata.json''
       = Returns (JObj [(''architecture'', JStr ''EfficientNetB0'')])
   \<and> fst (snd (load_trained_model metadata_only_fs)) = JNull
   \<and> fst (snd (load_trained_model metadata_only_fs))
       \<noteq> JObj [(''architecture'', JStr ''EfficientNetB0'')]
   \<and> fst (snd (load_trained_model metadata_only_fs)) \<noteq> default_metadata"
  by (simp add: load_trained_model_def possible_paths_def metadata_paths_def
      metadata_only_fs_def default_metadata_def)

text \<open>
  C8. When the first existing model path loads and no metadata candidate path exists,
  \<^verbatim>\<open>load_trained_model\<close> returns the loaded model, no error, and the default metadata
  record: classes ["DR", "No_DR"], test_accuracy 0.96, test_auc 0.99, architecture
  "EfficientNetB3".
\<close>

theorem load_trained_model_default_metadata:
  assumes "find (path_exists fs) possible_paths = Some model_path"
      and "load_model fs model_path = Returns mdl"
      and "\<forall>p \<in> set metadata_paths. \<not> path_exists fs p"
  shows "load_trained_model fs =
           (Some mdl,
            JObj [(''classes'', JArr [JStr ''DR'', JStr ''No_DR'']),
                  (''test_accuracy'', JNum 0.96),
                  (''test_auc'', JNum 0.99),
                  (''architecture'', JStr ''EfficientNetB3'')],
            None)"
proof -
  from assms(3) have "find (path_exists fs) metadata_paths = None"
    by (simp add: find_None_iff)
  with assms(1,2) show ?thesis
    by (simp add: load_trained_model_def default_metadata_def)
qed

theorem load_trained_model_default_metadata_witness:
  "find (path_exists model_only_fs) possible_paths = Some ''models/best_model.h5''
   \<and> load_model model_only_fs ''models/best_model.h5'' = Returns half_model
   \<and> filter (path_exists model_only_fs) metadata_paths = []
   \<and> load_trained_model model_only_fs = (Some half_model, default_metadata, None)"
proof -
  have found: "find (path_exists model_only_fs) possible_paths = Some ''models/best_model.h5''"
    by (simp add: possible_paths_def model_only_fs_def)
  have loaded: "load_model model_only_fs ''models/best_model.h5'' = Returns half_model"
    by (simp add: model_only_fs_def)
  have no_meta: "\<forall>p \<in> set metadata_paths. \<not> path_exists model_only_fs p"
    by (simp add: metadata_paths_def model_only_fs_def)
  from load_trained_model_default_metadata [OF found loaded no_meta] found loaded no_meta
  show ?thesis by (simp add: default_metadata_def filter_empty_conv)
qed

section \<open>Download names\<close>

lemma split_char_first:
  "split_char sep s = takeWhile (\<lambda>c. c \<noteq> sep) s # tl (split_char sep s)"
  by (induction s) (auto split: list.split)

text \<open>The report is named after what precedes the first dot of the uploaded name.\<close>

lemma report_file_name_first_dot:
  "report_file_name nm =
     Returns (''DR_Report_'' @ takeWhile (\<lambda>c. c \<noteq> CHR ''.'') nm @ ''.txt'')"
  by (subst report_file_name_def, subst split_char_first) (simp add: index0_def)

lemma batch_file_name_constant: "batch_file_name = ''batch_dr_analysis.csv''"
  by (simp add: batch_file_name_def)

text \<open>
  C9, at a failing input. For the upload \<^verbatim>\<open>scan.v2.png\<close> the report is offered as
  \<^verbatim>\<open>DR_Report_scan.txt\<close>, whereas the name with its extension removed is
  \<^verbatim>\<open>scan.v2\<close> and the claim asks for \<^verbatim>\<open>DR_Report_scan.v2.txt\<close>.
\<close>

theorem report_file_name_second_dot:
  "report_file_name ''scan.v2.png'' = Returns ''DR_Report_scan.txt''
   \<and> ''DR_Report_'' @ name_without_extension ''scan.v2.png'' @ ''.txt''
       = ''DR_Report_scan.v2.txt''"
  by (simp add: report_file_name_def index0_def name_without_extension_def)

end
